theory Spec2Isabelle
  imports Main "HOL-Library.Word"
begin

section \<open>Python values and JSON documents\<close>

text \<open>
  The values a route hands to the dispatcher. Dictionaries keep their insertion order and
  have string keys; floating point numbers are left out. \<open>PObject n\<close> is any object of
  a type named \<open>n\<close> for which \<^verbatim>\<open>json.dumps\<close> has no encoder (a set, a
  \<^verbatim>\<open>bytes\<close> value, a \<^verbatim>\<open>datetime\<close>, a generator).
\<close>

datatype pyval =
    PNone
  | PBool bool
  | PInt int
  | PStr string
  | PList "pyval list"
  | PTuple "pyval list"
  | PDict "(string \<times> pyval) list"
  | PObject string

text \<open>The document that a JSON text denotes.\<close>

datatype json =
    JNull
  | JBool bool
  | JNum int
  | JStr string
  | JArr "json list"
  | JObj "(string \<times> json) list"

section \<open>Exceptions\<close>

text \<open>
  Exception classes. The first group are the built-in classes the dispatcher meets, the
  second the classes of \<^verbatim>\<open>response.py\<close>, the third the classes it imports from
  \<^verbatim>\<open>refitt.web.token\<close>, \<^verbatim>\<open>refitt.web.api.auth\<close> and
  \<^verbatim>\<open>refitt.database.model\<close> (\<open>RecordNotFound\<close> is the name
  \<^verbatim>\<open>response.py\<close> gives to the model's \<^verbatim>\<open>NotFound\<close>).
  \<open>Derived n bs\<close> is any other class, named \<open>n\<close>, with the direct bases \<open>bs\<close>.
\<close>

datatype exc_class =
    BaseException
  | Exception
  | SystemExit
  | KeyboardInterrupt
  | GeneratorExit
  | RuntimeError
  | NotImplementedError
  | TypeError
  | ValueError
  | AttributeError
  | WebException
  | NotFound
  | PayloadTooLarge
  | PayloadNotFound
  | PayloadMalformed
  | PayloadInvalid
  | ConstraintViolation
  | ParameterInvalid
  | TokenNotFound
  | TokenInvalid
  | TokenExpired
  | AuthenticationNotFound
  | AuthenticationInvalid
  | PermissionDenied
  | RecordNotFound
  | Derived string "exc_class list"

text \<open>
  Modelled from the spec: the declarations of \<open>TokenNotFound\<close>, \<open>TokenInvalid\<close>,
  \<open>TokenExpired\<close>, \<open>AuthenticationNotFound\<close>, \<open>AuthenticationInvalid\<close>,
  \<open>PermissionDenied\<close> and \<open>RecordNotFound\<close>, which are in modules that are not among
  the sources at hand. The specification lists them as separate error kinds of the
  taxonomy, so each is taken as a direct subclass of \<open>Exception\<close>. For the built-in
  classes and the classes of \<^verbatim>\<open>response.py\<close> the hierarchy is the declared one.
  \<open>ancestors c\<close> is the class \<open>c\<close> together with all its superclasses.
\<close>

fun ancestors :: "exc_class \<Rightarrow> exc_class list" where
  "ancestors BaseException = [BaseException]"
| "ancestors Exception = [Exception, BaseException]"
| "ancestors SystemExit = [SystemExit, BaseException]"
| "ancestors KeyboardInterrupt = [KeyboardInterrupt, BaseException]"
| "ancestors GeneratorExit = [GeneratorExit, BaseException]"
| "ancestors RuntimeError = [RuntimeError, Exception, BaseException]"
| "ancestors NotImplementedError = [NotImplementedError, RuntimeError, Exception, BaseException]"
| "ancestors TypeError = [TypeError, Exception, BaseException]"
| "ancestors ValueError = [ValueError, Exception, BaseException]"
| "ancestors AttributeError = [AttributeError, Exception, BaseException]"
| "ancestors WebException = [WebException, Exception, BaseException]"
| "ancestors NotFound = [NotFound, WebException, Exception, BaseException]"
| "ancestors PayloadTooLarge = [PayloadTooLarge, WebException, Exception, BaseException]"
| "ancestors PayloadNotFound = [PayloadNotFound, WebException, Exception, BaseException]"
| "ancestors PayloadMalformed = [PayloadMalformed, WebException, Exception, BaseException]"
| "ancestors PayloadInvalid = [PayloadInvalid, WebException, Exception, BaseException]"
| "ancestors ConstraintViolation = [ConstraintViolation, WebException, Exception, BaseException]"
| "ancestors ParameterInvalid = [ParameterInvalid, WebException, Exception, BaseException]"
| "ancestors TokenNotFound = [TokenNotFound, Exception, BaseException]"
| "ancestors TokenInvalid = [TokenInvalid, Exception, BaseException]"
| "ancestors TokenExpired = [TokenExpired, Exception, BaseException]"
| "ancestors AuthenticationNotFound = [AuthenticationNotFound, Exception, BaseException]"
| "ancestors AuthenticationInvalid = [AuthenticationInvalid, Exception, BaseException]"
| "ancestors PermissionDenied = [PermissionDenied, Exception, BaseException]"
| "ancestors RecordNotFound = [RecordNotFound, Exception, BaseException]"
| "ancestors (Derived n bs) = Derived n bs # concat (map ancestors bs)"

definition issubclass :: "exc_class \<Rightarrow> exc_class \<Rightarrow> bool" where
  "issubclass c d = (d \<in> set (ancestors c))"

text \<open>
  A raised exception together with its text: \<open>exc_type\<close> is \<^verbatim>\<open>type(error)\<close> and
  \<open>exc_str\<close> is what \<^verbatim>\<open>str(error)\<close> returns. An exception whose
  \<^verbatim>\<open>__str__\<close> itself raises has no text and is not a value of this type.
\<close>

record exc =
  exc_type :: exc_class
  exc_str :: string

definition isinstance :: "exc \<Rightarrow> exc_class \<Rightarrow> bool" where
  "isinstance error c = issubclass (exc_type error) c"

section \<open>Dictionaries\<close>

text \<open>
  A Python dictionary is an association list in insertion order. \<open>setitem\<close> is
  \<^verbatim>\<open>d[k] = v\<close>: an existing key keeps its place, a new key goes last.
  \<open>getitem\<close> is \<^verbatim>\<open>d[k]\<close>, used only where the key is there.
\<close>

fun setitem :: "'k \<Rightarrow> 'v \<Rightarrow> ('k \<times> 'v) list \<Rightarrow> ('k \<times> 'v) list" where
  "setitem k v [] = [(k, v)]"
| "setitem k v (p # ps) = (if fst p = k then (k, v) # ps else p # setitem k v ps)"

definition contains :: "('k \<times> 'v) list \<Rightarrow> 'k \<Rightarrow> bool" where
  "contains d k = (map_of d k \<noteq> None)"

definition getitem :: "('k \<times> 'v) list \<Rightarrow> 'k \<Rightarrow> 'v" where
  "getitem d k = the (map_of d k)"

section \<open>\<^verbatim>\<open>json.dumps\<close>\<close>

text \<open>
  The encoder walks the value in order and raises \<open>TypeError\<close> at the first object it
  cannot encode; a tuple is written as an array.
\<close>

definition not_serializable :: "string \<Rightarrow> exc" where
  "not_serializable n =
     \<lparr>exc_type = TypeError,
      exc_str = ''Object of type '' @ n @ '' is not JSON serializable''\<rparr>"

fun json_dumps :: "pyval \<Rightarrow> exc + json"
  and dumps_list :: "pyval list \<Rightarrow> exc + json list"
  and dumps_items :: "(string \<times> pyval) list \<Rightarrow> exc + (string \<times> json) list"
where
  "json_dumps PNone = Inr JNull"
| "json_dumps (PBool b) = Inr (JBool b)"
| "json_dumps (PInt i) = Inr (JNum i)"
| "json_dumps (PStr s) = Inr (JStr s)"
| "json_dumps (PList xs) =
     (case dumps_list xs of Inl e \<Rightarrow> Inl e | Inr js \<Rightarrow> Inr (JArr js))"
| "json_dumps (PTuple xs) =
     (case dumps_list xs of Inl e \<Rightarrow> Inl e | Inr js \<Rightarrow> Inr (JArr js))"
| "json_dumps (PDict kvs) =
     (case dumps_items kvs of Inl e \<Rightarrow> Inl e | Inr js \<Rightarrow> Inr (JObj js))"
| "json_dumps (PObject n) = Inl (not_serializable n)"
| "dumps_list [] = Inr []"
| "dumps_list (x # xs) =
     (case json_dumps x of
        Inl e \<Rightarrow> Inl e
      | Inr j \<Rightarrow> (case dumps_list xs of Inl e \<Rightarrow> Inl e | Inr js \<Rightarrow> Inr (j # js)))"
| "dumps_items [] = Inr []"
| "dumps_items ((k, v) # kvs) =
     (case json_dumps v of
        Inl e \<Rightarrow> Inl e
      | Inr j \<Rightarrow> (case dumps_items kvs of Inl e \<Rightarrow> Inl e | Inr js \<Rightarrow> Inr ((k, j) # js)))"

section \<open>The dispatcher of \<^verbatim>\<open>refitt/web/api/response.py\<close>\<close>

definition STATUS :: "(string \<times> nat) list" where
  "STATUS =
     [(''OK'', 200),
      (''Created'', 201),
      (''No Content'', 204),
      (''Bad Request'', 400),
      (''Unauthorized'', 401),
      (''Forbidden'', 403),
      (''Not Found'', 404),
      (''Method Not Allowed'', 405),
      (''Payload Too Large'', 413),
      (''I'' @ [CHR 0x27] @ ''m a teapot'', 418),
      (''Too Many Requests'', 429),
      (''Unavailable For Legal Reasons'', 451),
      (''Internal Server Error'', 500),
      (''Not Implemented'', 501),
      (''Service Unavailable'', 503)]"

definition RESPONSE_MAP :: "(exc_class \<times> nat) list" where
  "RESPONSE_MAP =
     [(TokenNotFound, getitem STATUS ''Forbidden''),
      (AuthenticationNotFound, getitem STATUS ''Forbidden''),
      (TokenInvalid, getitem STATUS ''Forbidden''),
      (AuthenticationInvalid, getitem STATUS ''Forbidden''),
      (PermissionDenied, getitem STATUS ''Unauthorized''),
      (TokenExpired, getitem STATUS ''Unauthorized''),
      (RecordNotFound, getitem STATUS ''Not Found''),
      (NotFound, getitem STATUS ''Not Found''),
      (PayloadNotFound, getitem STATUS ''Bad Request''),
      (PayloadMalformed, getitem STATUS ''Bad Request''),
      (PayloadInvalid, getitem STATUS ''Bad Request''),
      (ConstraintViolation, getitem STATUS ''Bad Request''),
      (ParameterInvalid, getitem STATUS ''Bad Request''),
      (NotImplementedError, getitem STATUS ''Not Implemented''),
      (PayloadTooLarge, getitem STATUS ''Payload Too Large'')]"

text \<open>
  The request as a route and the dispatcher see it: flask's request object (its method, written \<open>http_method\<close>, its path,
  the \<^verbatim>\<open>Authorization\<close> header if there is one, the payload) together with the
  arguments of the call.
\<close>

datatype credentials = Bearer string | Basic string string

record request =
  http_method :: string
  path :: string
  auth_header :: "credentials option"
  data :: string
  view_args :: "(string \<times> string) list"

type_synonym bytes = "8 word list"

text \<open>
  What a route returns, \<^verbatim>\<open>Union[dict, ByteGenerator]\<close>: a dictionary for the JSON
  mode, or the pair of a header dictionary and a generator of byte strings for the
  streaming mode. The generator is the finite sequence of the chunks it yields.
\<close>

datatype retval =
    Payload "(string \<times> pyval) list"
  | ByteGenerator "(string \<times> string) list" "bytes list"

type_synonym route = "request \<Rightarrow> exc + retval"

text \<open>
  flask's \<^verbatim>\<open>Response\<close>. \<open>mimetype\<close> is its content type, the value of the
  \<^verbatim>\<open>Content-Type\<close> header up to the first semicolon; \<open>headers\<close> holds the other
  headers, in their order.
\<close>

datatype body = Json json | Stream "bytes list"

record response =
  body :: body
  status_code :: nat
  mimetype :: string
  headers :: "(string \<times> string) list"

text \<open>
  A wrapped route returns the lines it logged (method, path and status of
  \<^verbatim>\<open>log.info(f'{request.method} {request.path} {status}')\<close>) and either raises or
  returns a value: \<open>Some r\<close> is a \<^verbatim>\<open>Response\<close>, \<open>None\<close> is Python's
  \<^verbatim>\<open>None\<close>.
\<close>

type_synonym log_entry = "string \<times> string \<times> nat"

type_synonym wrapped = "request \<Rightarrow> log_entry list \<times> (exc + response option)"

text \<open>The value of a route's result as a Python object.\<close>

fun retval_value :: "retval \<Rightarrow> pyval" where
  "retval_value (Payload kvs) = PDict kvs"
| "retval_value (ByteGenerator hs chunks) =
     PTuple [PDict (map (\<lambda>(k, v). (k, PStr v)) hs), PObject ''generator'']"

text \<open>
  \<^verbatim>\<open>format_json\<close>. The \<^verbatim>\<open>except Exception\<close> clause handles instances of
  \<open>Exception\<close> only; the \<^verbatim>\<open>finally\<close> block runs in every case and its
  \<^verbatim>\<open>return\<close> discards an exception that is still in flight. An exception raised by
  \<^verbatim>\<open>json.dumps\<close> inside the \<^verbatim>\<open>finally\<close> block leaves the function.
\<close>

definition format_json :: "route \<Rightarrow> wrapped" where
  "format_json route req =
     (let status = getitem STATUS ''OK'';
          response = [(''Status'', PStr ''Success'')];
          (status, response) =
            (case route req of
               Inr v \<Rightarrow> (status, setitem ''Response'' (retval_value v) response)
             | Inl error \<Rightarrow>
                 if isinstance error Exception then
                   if contains RESPONSE_MAP (exc_type error) then
                     (getitem RESPONSE_MAP (exc_type error),
                      setitem ''Message'' (PStr (exc_str error))
                        (setitem ''Status'' (PStr ''Error'') response))
                   else
                     (getitem STATUS ''Internal Server Error'',
                      setitem ''Message'' (PStr (exc_str error))
                        (setitem ''Status'' (PStr ''Critical'') response))
                 else (status, response))
      in ([(http_method req, path req, status)],
          case json_dumps (PDict response) of
            Inl e \<Rightarrow> Inl e
          | Inr text \<Rightarrow>
              Inr (Some \<lparr>body = Json text, status_code = status,
                         mimetype = ''application/json'', headers = []\<rparr>)))"

text \<open>
  The headers of a response, as werkzeug keeps them: a list of pairs whose keys compare
  without regard to case (of the ASCII letters). \<open>header_value\<close> is the check of a value
  before it is stored, which refuses a line break. \<open>set_header\<close> is
  \<^verbatim>\<open>response.headers[key] = value\<close> for a checked value: the first entry with that
  key is replaced, by the key as now spelled, and every later one removed; without such
  an entry the pair goes last. \<open>set_headers\<close> is the loop over
  \<^verbatim>\<open>headers.items()\<close>, which the first refused value leaves by its
  \<open>ValueError\<close>.
\<close>

definition lower_char :: "char \<Rightarrow> char" where
  "lower_char c =
     (case map_of (zip ''ABCDEFGHIJKLMNOPQRSTUVWXYZ'' ''abcdefghijklmnopqrstuvwxyz'') c of
        Some d \<Rightarrow> d
      | None \<Rightarrow> c)"

definition lower :: "string \<Rightarrow> string" where
  "lower s = map lower_char s"

definition header_value :: "string \<Rightarrow> exc + string" where
  "header_value v =
     (if CHR 0x0A \<in> set v \<or> CHR 0x0D \<in> set v
      then Inl \<lparr>exc_type = ValueError,
                exc_str = ''Header values must not contain newline characters.''\<rparr>
      else Inr v)"

fun set_header :: "string \<Rightarrow> string \<Rightarrow> (string \<times> string) list \<Rightarrow> (string \<times> string) list" where
  "set_header k v [] = [(k, v)]"
| "set_header k v (p # ps) =
     (if lower (fst p) = lower k
      then (k, v) # filter (\<lambda>q. lower (fst q) \<noteq> lower k) ps
      else p # set_header k v ps)"

fun set_headers :: "(string \<times> string) list \<Rightarrow> (string \<times> string) list \<Rightarrow> exc + (string \<times> string) list" where
  "set_headers [] hl = Inr hl"
| "set_headers ((k, v) # kvs) hl =
     (case header_value v of
        Inl e \<Rightarrow> Inl e
      | Inr w \<Rightarrow> set_headers kvs (set_header k w hl))"

text \<open>
  The content type that a list of headers gives: the value of its first
  \<^verbatim>\<open>Content-Type\<close> entry up to the first semicolon, without the ASCII white space
  around it.
\<close>

definition is_space :: "char \<Rightarrow> bool" where
  "is_space c =
     (c \<in> set [CHR 0x09, CHR 0x0A, CHR 0x0B, CHR 0x0C, CHR 0x0D,
                CHR 0x1C, CHR 0x1D, CHR 0x1E, CHR 0x1F, CHR 0x20])"

definition strip :: "string \<Rightarrow> string" where
  "strip s = rev (dropWhile is_space (rev (dropWhile is_space s)))"

definition content_type_of :: "(string \<times> string) list \<Rightarrow> string" where
  "content_type_of hl =
     (case find (\<lambda>p. lower (fst p) = ''content-type'') hl of
        Some p \<Rightarrow> strip (takeWhile (\<lambda>c. c \<noteq> CHR 0x3B) (snd p))
      | None \<Rightarrow> [])"

text \<open>
  The \<^verbatim>\<open>try\<close> block of \<^verbatim>\<open>format_stream\<close>, from the value the route
  returned; its result is the local \<^verbatim>\<open>response\<close>. A pair unpacks into
  \<^verbatim>\<open>headers, stream\<close>; the new response starts with the
  \<^verbatim>\<open>Content-Type\<close> header of its mimetype, and each header of the route is then set
  on it, so that a \<^verbatim>\<open>Content-Type\<close> of the route takes the place of that one. A
  dictionary unpacks into its keys when it has exactly two, and the first key, a string,
  then has no \<^verbatim>\<open>items\<close> method; with another number of keys the unpacking itself
  fails.
\<close>

fun stream_response :: "retval \<Rightarrow> nat \<Rightarrow> exc + response" where
  "stream_response (ByteGenerator hs chunks) code =
     (case set_headers hs [(''Content-Type'', ''application/octet-stream'')] of
        Inl e \<Rightarrow> Inl e
      | Inr hl \<Rightarrow>
          Inr \<lparr>body = Stream chunks, status_code = code,
               mimetype = content_type_of hl,
               headers = filter (\<lambda>p. lower (fst p) \<noteq> ''content-type'') hl\<rparr>)"
| "stream_response (Payload []) code =
     Inl \<lparr>exc_type = ValueError,
          exc_str = ''not enough values to unpack (expected 2, got 0)''\<rparr>"
| "stream_response (Payload [p]) code =
     Inl \<lparr>exc_type = ValueError,
          exc_str = ''not enough values to unpack (expected 2, got 1)''\<rparr>"
| "stream_response (Payload [p, q]) code =
     Inl \<lparr>exc_type = AttributeError,
          exc_str = [CHR 0x27] @ ''str'' @ [CHR 0x27] @ '' object has no attribute ''
                    @ [CHR 0x27] @ ''items'' @ [CHR 0x27]\<rparr>"
| "stream_response (Payload (p # q # r # ps)) code =
     Inl \<lparr>exc_type = ValueError, exc_str = ''too many values to unpack (expected 2)''\<rparr>"

definition stream_try :: "route \<Rightarrow> request \<Rightarrow> nat \<Rightarrow> exc + response" where
  "stream_try route req code =
     (case route req of
        Inl e \<Rightarrow> Inl e
      | Inr v \<Rightarrow> stream_response v code)"

text \<open>
  \<^verbatim>\<open>format_stream\<close>. When the \<^verbatim>\<open>try\<close> block ends normally, the function logs
  in its \<^verbatim>\<open>finally\<close> block and ends without a \<^verbatim>\<open>return\<close> statement. An
  error raised inside the block, by the route, by the unpacking or by a refused header,
  is answered by the \<^verbatim>\<open>except\<close> clause. An
  exception that is no instance of \<open>Exception\<close> passes the \<^verbatim>\<open>except\<close> clause,
  is logged with the status unchanged, and leaves the function.
\<close>

definition format_stream :: "route \<Rightarrow> wrapped" where
  "format_stream route req =
     (let status = getitem STATUS ''OK'' in
      case stream_try route req status of
        Inr response \<Rightarrow> ([(http_method req, path req, status)], Inr None)
      | Inl error \<Rightarrow>
          if isinstance error Exception then
            (let response = [];
                 (status, response) =
                   (if contains RESPONSE_MAP (exc_type error) then
                      (getitem RESPONSE_MAP (exc_type error),
                       setitem ''Status'' (PStr ''Error'') response)
                    else
                      (getitem STATUS ''Internal Server Error'',
                       setitem ''Status'' (PStr ''Critical'') response));
                 response = setitem ''Message'' (PStr (exc_str error)) response
             in ([(http_method req, path req, status)],
                 case json_dumps (PDict response) of
                   Inl e \<Rightarrow> Inl e
                 | Inr text \<Rightarrow>
                     Inr (Some \<lparr>body = Json text, status_code = status,
                                mimetype = ''application/json'', headers = []\<rparr>)))
          else ([(http_method req, path req, status)], Inl error))"

definition content_type_not_implemented :: "string \<Rightarrow> wrapped" where
  "content_type_not_implemented content_type req =
     ([],
      case json_dumps
             (PDict [(''Status'', PStr ''Critical''),
                     (''Message'',
                      PStr (''Content-type not defined: '' @ [CHR 0x27] @ content_type
                            @ [CHR 0x27]))]) of
        Inl e \<Rightarrow> Inl e
      | Inr text \<Rightarrow>
          Inr (Some \<lparr>body = Json text, status_code = getitem STATUS ''Internal Server Error'',
                     mimetype = ''application/json'', headers = []\<rparr>))"

definition endpoint :: "string \<Rightarrow> route \<Rightarrow> wrapped" where
  "endpoint content_type route =
     (if content_type = ''application/json'' then format_json route
      else if content_type = ''application/octet-stream'' then format_stream route
      else content_type_not_implemented content_type)"

section \<open>The taxonomy as the specification states it\<close>

text \<open>
  The table of the specification (section 6), row by row. Its kind
  \<^verbatim>\<open>NotImplemented\<close> is Python's \<open>NotImplementedError\<close>; every other error has
  the status 500.
\<close>

definition spec_taxonomy :: "(exc_class \<times> nat) list" where
  "spec_taxonomy =
     [(TokenNotFound, 403),
      (AuthenticationNotFound, 403),
      (TokenInvalid, 403),
      (AuthenticationInvalid, 403),
      (PermissionDenied, 401),
      (TokenExpired, 401),
      (RecordNotFound, 404),
      (NotFound, 404),
      (PayloadNotFound, 400),
      (PayloadMalformed, 400),
      (PayloadInvalid, 400),
      (ConstraintViolation, 400),
      (ParameterInvalid, 400),
      (NotImplementedError, 501),
      (PayloadTooLarge, 413)]"

section \<open>Authentication\<close>

text \<open>
  The module \<^verbatim>\<open>refitt/web/api/auth.py\<close> and the token codec
  \<^verbatim>\<open>refitt/web/token.py\<close> are not among the sources at hand; the routes apply
  their decorators and the integration tests state the messages. The definitions of this
  section follow the specification (sections 4.1 to 4.3) and take the messages from
  \<^verbatim>\<open>tests/integration/test_web/test_api/test_endpoint/__init__.py\<close>.
\<close>

record jwt =
  sub :: nat
  iat :: nat
  exp :: nat

record client =
  client_id :: nat
  client_key :: string
  level :: nat
  revoked :: bool

text \<open>
  The external collaborators: \<open>verify\<close> checks the signature and the structure of a token
  string (\<open>None\<close> when either fails), \<open>now\<close> is the current time, \<open>find_by_id\<close> is the
  record lookup, which raises its own error when there is no such client, \<open>find_by_key\<close>
  looks a client up by its key, \<open>secret_matches\<close> is the hash-based comparison of a
  presented secret with the client's.
\<close>

record store =
  verify :: "string \<Rightarrow> jwt option"
  now :: nat
  find_by_id :: "nat \<Rightarrow> exc + client"
  find_by_key :: "string \<Rightarrow> client option"
  secret_matches :: "string \<Rightarrow> client \<Rightarrow> bool"

definition preview :: "string \<Rightarrow> string" where
  \<comment> \<open>Modelled from the spec: the truncated form of a token in
      \<^verbatim>\<open>refitt/web/token.py\<close>, its first 3 and last 3 characters joined by three dots.\<close>
  "preview token = take 3 token @ ''...'' @ drop (length token - 3) token"

definition decrypt :: "store \<Rightarrow> string \<Rightarrow> exc + jwt" where
  \<comment> \<open>Modelled from the spec: \<^verbatim>\<open>JWT.decrypt\<close> of \<^verbatim>\<open>refitt/web/token.py\<close>. It fails
      with \<open>TokenInvalid\<close> if the signature does not verify or the structure is malformed, and
      with \<open>TokenExpired\<close> if the current time exceeds the expiry.\<close>
  "decrypt st token =
     (case verify st token of
        None \<Rightarrow>
          Inl \<lparr>exc_type = TokenInvalid,
               exc_str = ''Token invalid: '' @ [CHR 0x27] @ preview token @ [CHR 0x27]\<rparr>
      | Some claim \<Rightarrow>
          if now st > exp claim
          then Inl \<lparr>exc_type = TokenExpired, exc_str = ''Token expired''\<rparr>
          else Inr claim)"

definition authenticated :: "store \<Rightarrow> (client \<Rightarrow> route) \<Rightarrow> route" where
  \<comment> \<open>Modelled from the spec: the decorator \<^verbatim>\<open>authenticated\<close> of
      \<^verbatim>\<open>refitt/web/api/auth.py\<close>. It requires an \<^verbatim>\<open>Authorization: Bearer <token>\<close>
      header, validates the token, resolves the client, refuses a client whose access is
      revoked, and passes the client to the route as its first argument.\<close>
  "authenticated st route req =
     (case auth_header req of
        Some (Bearer token) \<Rightarrow>
          (case decrypt st token of
             Inl e \<Rightarrow> Inl e
           | Inr claim \<Rightarrow>
               (case find_by_id st (sub claim) of
                  Inl e \<Rightarrow> Inl e
                | Inr c \<Rightarrow>
                    if revoked c
                    then Inl \<lparr>exc_type = PermissionDenied,
                              exc_str = ''Access has been revoked''\<rparr>
                    else route c req))
      | _ \<Rightarrow>
          Inl \<lparr>exc_type = TokenNotFound,
               exc_str = ''Expected '' @ [CHR 0x22] @ ''Authorization: Bearer <token>''
                         @ [CHR 0x22] @ '' in header''\<rparr>)"

definition authenticate :: "store \<Rightarrow> (client \<Rightarrow> route) \<Rightarrow> route" where
  \<comment> \<open>Modelled from the spec: the decorator \<^verbatim>\<open>authenticate\<close> of
      \<^verbatim>\<open>refitt/web/api/auth.py\<close>, the login by key and secret. It fails with
      \<open>AuthenticationNotFound\<close> if no pair was supplied, with \<open>AuthenticationInvalid\<close> if the
      key matches no client or the secret does not verify, and refuses a client whose access
      is revoked.\<close>
  "authenticate st route req =
     (case auth_header req of
        Some (Basic key secret) \<Rightarrow>
          (case find_by_key st key of
             None \<Rightarrow>
               Inl \<lparr>exc_type = AuthenticationInvalid, exc_str = ''Client key invalid''\<rparr>
           | Some c \<Rightarrow>
               if \<not> secret_matches st secret c
               then Inl \<lparr>exc_type = AuthenticationInvalid,
                         exc_str = ''Client secret invalid''\<rparr>
               else if revoked c
               then Inl \<lparr>exc_type = PermissionDenied,
                         exc_str = ''Access has been revoked''\<rparr>
               else route c req)
      | _ \<Rightarrow>
          Inl \<lparr>exc_type = AuthenticationNotFound,
               exc_str = ''Missing key:secret in header''\<rparr>)"

section \<open>Sample requests and routes\<close>

definition sample_request :: request where
  "sample_request =
     \<lparr>http_method = ''GET'', path = ''/user/1'', auth_header = None, data = [], view_args = []\<rparr>"

definition raises :: "exc \<Rightarrow> route" where
  "raises e req = Inl e"

definition returns :: "retval \<Rightarrow> route" where
  "returns v req = Inr v"

definition sample_client :: client where
  "sample_client = \<lparr>client_id = 7, client_key = ''key-7'', level = 1, revoked = True\<rparr>"

definition sample_store :: store where
  "sample_store =
     \<lparr>verify = (\<lambda>t. if t = ''good-token'' then Some \<lparr>sub = 7, iat = 10, exp = 100\<rparr> else None),
      now = 50,
      find_by_id = (\<lambda>i. if i = 7 then Inr sample_client
                         else Inl \<lparr>exc_type = RecordNotFound, exc_str = ''No such client''\<rparr>),
      find_by_key = (\<lambda>k. if k = ''key-7'' then Some sample_client else None),
      secret_matches = (\<lambda>s c. s = ''secret-7'')\<rparr>"

definition sample_route :: "client \<Rightarrow> route" where
  "sample_route c req = Inr (Payload [(''client'', PInt (int (client_id c)))])"

section \<open>The tables\<close>

lemma STATUS_OK: "getitem STATUS ''OK'' = 200"
  by (simp add: getitem_def STATUS_def)

lemma STATUS_ISE: "getitem STATUS ''Internal Server Error'' = 500"
  by (simp add: getitem_def STATUS_def)

lemma RESPONSE_MAP_spec: "RESPONSE_MAP = spec_taxonomy"
  by (simp add: RESPONSE_MAP_def spec_taxonomy_def getitem_def STATUS_def)






section \<open>A raised error in either mode\<close>

lemma format_json_raise:
  assumes "route req = Inl error" and "isinstance error Exception"
  shows "format_json route req =
     ([(http_method req, path req,
        case map_of spec_taxonomy (exc_type error) of Some code \<Rightarrow> code | None \<Rightarrow> 500)],
      Inr (Some
        \<lparr>body = Json (JObj
           [(''Status'',
             JStr (case map_of spec_taxonomy (exc_type error) of
                     Some code \<Rightarrow> ''Error'' | None \<Rightarrow> ''Critical'')),
            (''Message'', JStr (exc_str error))]),
         status_code =
           (case map_of spec_taxonomy (exc_type error) of Some code \<Rightarrow> code | None \<Rightarrow> 500),
         mimetype = ''application/json'', headers = []\<rparr>))"
proof (cases "map_of spec_taxonomy (exc_type error)")
  case None
  with assms show ?thesis
    by (simp add: format_json_def contains_def RESPONSE_MAP_spec STATUS_OK STATUS_ISE)
next
  case (Some code)
  with assms show ?thesis
    by (simp add: format_json_def contains_def getitem_def RESPONSE_MAP_spec STATUS_OK)
qed

lemma format_stream_raise:
  assumes "route req = Inl error" and "isinstance error Exception"
  shows "format_stream route req =
     ([(http_method req, path req,
        case map_of spec_taxonomy (exc_type error) of Some code \<Rightarrow> code | None \<Rightarrow> 500)],
      Inr (Some
        \<lparr>body = Json (JObj
           [(''Status'',
             JStr (case map_of spec_taxonomy (exc_type error) of
                     Some code \<Rightarrow> ''Error'' | None \<Rightarrow> ''Critical'')),
            (''Message'', JStr (exc_str error))]),
         status_code =
           (case map_of spec_taxonomy (exc_type error) of Some code \<Rightarrow> code | None \<Rightarrow> 500),
         mimetype = ''application/json'', headers = []\<rparr>))"
proof (cases "map_of spec_taxonomy (exc_type error)")
  case None
  with assms show ?thesis
    by (simp add: format_stream_def stream_try_def contains_def RESPONSE_MAP_spec
        STATUS_OK STATUS_ISE)
next
  case (Some code)
  with assms show ?thesis
    by (simp add: format_stream_def stream_try_def contains_def getitem_def
        RESPONSE_MAP_spec STATUS_OK)
qed


section \<open>JSON mode: errors\<close>




section \<open>JSON mode: a route that returns\<close>

text \<open>
  C7. A route called through \<^verbatim>\<open>endpoint('application/json')\<close> returns normally with
  a value that \<^verbatim>\<open>json.dumps\<close> can encode. The response has the status 200 and a JSON
  body whose \<^verbatim>\<open>Status\<close> is \<^verbatim>\<open>Success\<close> and whose \<^verbatim>\<open>Response\<close> is
  the encoding of that value.
\<close>

theorem format_json_success:
  assumes "route req = Inr v" and "json_dumps (retval_value v) = Inr j"
  shows "snd (endpoint ''application/json'' route req) =
     Inr (Some \<lparr>body = Json (JObj [(''Status'', JStr ''Success''), (''Response'', j)]),
                status_code = 200, mimetype = ''application/json'', headers = []\<rparr>)"
  using assms by (simp add: endpoint_def format_json_def STATUS_OK)

theorem format_json_success_witness:
  "returns (Payload [(''user'', PDict [(''id'', PInt 7)])]) sample_request =
     Inr (Payload [(''user'', PDict [(''id'', PInt 7)])])
   \<and> json_dumps (retval_value (Payload [(''user'', PDict [(''id'', PInt 7)])])) =
       Inr (JObj [(''user'', JObj [(''id'', JNum 7)])])
   \<and> snd (endpoint ''application/json''
            (returns (Payload [(''user'', PDict [(''id'', PInt 7)])])) sample_request) =
       Inr (Some \<lparr>body = Json (JObj [(''Status'', JStr ''Success''),
                                     (''Response'', JObj [(''user'', JObj [(''id'', JNum 7)])])]),
                  status_code = 200, mimetype = ''application/json'', headers = []\<rparr>)"
proof -
  have r: "returns (Payload [(''user'', PDict [(''id'', PInt 7)])]) sample_request =
      Inr (Payload [(''user'', PDict [(''id'', PInt 7)])])"
    by (simp add: returns_def)
  have d: "json_dumps (retval_value (Payload [(''user'', PDict [(''id'', PInt 7)])])) =
      Inr (JObj [(''user'', JObj [(''id'', JNum 7)])])"
    by simp
  from format_json_success
      [of "returns (Payload [(''user'', PDict [(''id'', PInt 7)])])" sample_request
        "Payload [(''user'', PDict [(''id'', PInt 7)])]"
        "JObj [(''user'', JObj [(''id'', JNum 7)])]", OF r d] r d
  show ?thesis by simp
qed

text \<open>
  C7 as stated, for every returned value, fails: the value is encoded inside the
  \<^verbatim>\<open>finally\<close> block, outside the \<^verbatim>\<open>try\<close>, so for a dictionary that holds a
  set the \<open>TypeError\<close> of \<^verbatim>\<open>json.dumps\<close> leaves the wrapped function and there is
  no response.
\<close>

theorem format_json_success_counterexample:
  "snd (endpoint ''application/json''
          (returns (Payload [(''members'', PObject ''set'')])) sample_request) =
     Inl \<lparr>exc_type = TypeError,
          exc_str = ''Object of type set is not JSON serializable''\<rparr>"
  by (simp add: endpoint_def format_json_def returns_def STATUS_OK not_serializable_def)

section \<open>Streaming mode\<close>

text \<open>
  C2. A route called through \<^verbatim>\<open>endpoint('application/octet-stream')\<close> returns a pair
  of headers and a byte generator. The \<^verbatim>\<open>try\<close> block builds the binary response,
  with the status 200, the chunks as its body and each header of the route set, but
  \<^verbatim>\<open>format_stream\<close> has no \<^verbatim>\<open>return\<close> for it: after the log line the
  function ends and its caller receives \<^verbatim>\<open>None\<close>, not the response.
\<close>

theorem format_stream_returns_nothing:
  "stream_try
     (returns (ByteGenerator [(''Content-Disposition'', ''attachment'')] [[1, 2, 3], [4]]))
     sample_request 200 =
     Inr \<lparr>body = Stream [[1, 2, 3], [4]], status_code = 200,
          mimetype = ''application/octet-stream'',
          headers = [(''Content-Disposition'', ''attachment'')]\<rparr>
   \<and> endpoint ''application/octet-stream''
       (returns (ByteGenerator [(''Content-Disposition'', ''attachment'')] [[1, 2, 3], [4]]))
       sample_request =
     ([(''GET'', ''/user/1'', 200)], Inr None)"
  by (simp add: endpoint_def format_stream_def stream_try_def returns_def sample_request_def
      STATUS_OK header_value_def lower_def lower_char_def content_type_of_def strip_def
      is_space_def)

text \<open>
  A header value with a line break is refused inside the \<^verbatim>\<open>try\<close> block, and the
  \<^verbatim>\<open>except\<close> clause answers the \<open>ValueError\<close> like any other error outside the
  taxonomy.
\<close>

lemma refused_header_is_critical:
  "snd (endpoint ''application/octet-stream''
          (returns (ByteGenerator [(''X-Note'', ''a'' @ [CHR 0x0A] @ ''b'')] [[1]]))
          sample_request) =
     Inr (Some \<lparr>body = Json (JObj
                   [(''Status'', JStr ''Critical''),
                    (''Message'', JStr ''Header values must not contain newline characters.'')]),
                status_code = 500, mimetype = ''application/json'', headers = []\<rparr>)"
  by (simp add: endpoint_def format_stream_def stream_try_def returns_def header_value_def
      isinstance_def issubclass_def contains_def RESPONSE_MAP_def STATUS_OK STATUS_ISE)

text \<open>
  Header keys compare without regard to case, and a \<^verbatim>\<open>Content-Type\<close> of the route
  becomes the content type of the response.
\<close>

lemma route_headers_replace:
  "stream_try
     (returns (ByteGenerator [(''Content-Disposition'', ''attachment''),
                              (''content-type'', ''text/csv; charset=utf-8''),
                              (''CONTENT-DISPOSITION'', ''inline'')] [[1]]))
     sample_request 200 =
     Inr \<lparr>body = Stream [[1]], status_code = 200, mimetype = ''text/csv'',
          headers = [(''CONTENT-DISPOSITION'', ''inline'')]\<rparr>"
  by (simp add: stream_try_def returns_def header_value_def lower_def lower_char_def
      content_type_of_def strip_def is_space_def)




section \<open>Unknown content type\<close>

text \<open>
  C9. For a content type other than \<^verbatim>\<open>application/json\<close> and
  \<^verbatim>\<open>application/octet-stream\<close>, the decorated function answers every request with the
  status 500 and a JSON body with \<^verbatim>\<open>Status\<close> \<^verbatim>\<open>Critical\<close> and the message
  \<^verbatim>\<open>Content-type not defined\<close>, followed by the content type in quotes. Neither the
  route nor the request has a part in it, and nothing is logged.
\<close>

theorem content_type_not_defined:
  assumes "content_type \<noteq> ''application/json''"
    and "content_type \<noteq> ''application/octet-stream''"
  shows "endpoint content_type route req =
     ([], Inr (Some
       \<lparr>body = Json (JObj
          [(''Status'', JStr ''Critical''),
           (''Message'',
            JStr (''Content-type not defined: '' @ [CHR 0x27] @ content_type @ [CHR 0x27]))]),
        status_code = 500, mimetype = ''application/json'', headers = []\<rparr>))"
  using assms by (simp add: endpoint_def content_type_not_implemented_def STATUS_ISE)

theorem content_type_not_defined_witness:
  "''text/html'' \<noteq> ''application/json'' \<and> ''text/html'' \<noteq> ''application/octet-stream''
   \<and> endpoint ''text/html'' (returns (Payload [])) sample_request =
     ([], Inr (Some
       \<lparr>body = Json (JObj
          [(''Status'', JStr ''Critical''),
           (''Message'', JStr (''Content-type not defined: '' @ [CHR 0x27] @ ''text/html''
                                @ [CHR 0x27]))]),
        status_code = 500, mimetype = ''application/json'', headers = []\<rparr>))"
proof -
  have a: "''text/html'' \<noteq> ''application/json''" by simp
  have b: "''text/html'' \<noteq> ''application/octet-stream''" by simp
  from content_type_not_defined [OF a b, of "returns (Payload [])" sample_request] a b
  show ?thesis by simp
qed

section \<open>Exceptions at the boundary\<close>

text \<open>
  C8. For every route and every exception it raises that is an instance of \<open>Exception\<close>
  and has a text (\<^verbatim>\<open>str(error)\<close> returns it), the functions that the decorator
  produces for the JSON mode and for the streaming mode return: each gives a response, the
  same in both modes, whose status is the code of the taxonomy for the class of the
  exception, or 500, and whose body is the JSON envelope with \<^verbatim>\<open>Status\<close>
  \<^verbatim>\<open>Error\<close> or \<^verbatim>\<open>Critical\<close> and that text as its \<^verbatim>\<open>Message\<close>.
\<close>

theorem wrapped_returns_response:
  assumes "route req = Inl error" and "isinstance error Exception"
  shows "\<exists>r. snd (endpoint ''application/json'' route req) = Inr (Some r)
           \<and> snd (endpoint ''application/octet-stream'' route req) = Inr (Some r)
           \<and> status_code r =
               (case map_of spec_taxonomy (exc_type error) of
                  Some code \<Rightarrow> code | None \<Rightarrow> 500)
           \<and> body r =
               Json (JObj
                 [(''Status'',
                   JStr (case map_of spec_taxonomy (exc_type error) of
                           Some code \<Rightarrow> ''Error'' | None \<Rightarrow> ''Critical'')),
                  (''Message'', JStr (exc_str error))])"
  using format_stream_raise [of route req error, OF assms]
    format_json_raise [of route req error, OF assms]
  by (simp add: endpoint_def)

theorem wrapped_returns_response_witness:
  "raises \<lparr>exc_type = Derived ''KeyError'' [Derived ''LookupError'' [Exception]],
            exc_str = ''user''\<rparr> sample_request =
     Inl \<lparr>exc_type = Derived ''KeyError'' [Derived ''LookupError'' [Exception]],
          exc_str = ''user''\<rparr>
   \<and> isinstance \<lparr>exc_type = Derived ''KeyError'' [Derived ''LookupError'' [Exception]],
                  exc_str = ''user''\<rparr> Exception
   \<and> (\<exists>r. snd (endpoint ''application/json''
                 (raises \<lparr>exc_type = Derived ''KeyError'' [Derived ''LookupError'' [Exception]],
                          exc_str = ''user''\<rparr>) sample_request) = Inr (Some r)
          \<and> snd (endpoint ''application/octet-stream''
                 (raises \<lparr>exc_type = Derived ''KeyError'' [Derived ''LookupError'' [Exception]],
                          exc_str = ''user''\<rparr>) sample_request) = Inr (Some r)
          \<and> status_code r = 500
          \<and> body r = Json (JObj [(''Status'', JStr ''Critical''),
                                   (''Message'', JStr ''user'')]))"
proof -
  let ?e = "\<lparr>exc_type = Derived ''KeyError'' [Derived ''LookupError'' [Exception]],
             exc_str = ''user''\<rparr>"
  have r: "raises ?e sample_request = Inl ?e"
    by (simp add: raises_def)
  have i: "isinstance ?e Exception"
    by (simp add: isinstance_def issubclass_def)
  have t: "map_of spec_taxonomy (exc_type ?e) = None"
    by (simp add: spec_taxonomy_def)
  from wrapped_returns_response [of "raises ?e" sample_request ?e, OF r i] r i
  show ?thesis unfolding t by simp
qed

text \<open>
  C8 as stated, for every exception, fails: \<^verbatim>\<open>except Exception\<close> does not handle an
  exception outside \<open>Exception\<close>, and \<^verbatim>\<open>format_stream\<close> lets a
  \<open>KeyboardInterrupt\<close> of the route pass to its caller.
\<close>

theorem format_stream_propagates:
  "snd (endpoint ''application/octet-stream''
          (raises \<lparr>exc_type = KeyboardInterrupt, exc_str = ''''\<rparr>) sample_request) =
     Inl \<lparr>exc_type = KeyboardInterrupt, exc_str = ''''\<rparr>"
  by (simp add: endpoint_def format_stream_def stream_try_def raises_def isinstance_def
      issubclass_def)

section \<open>Subclasses of the taxonomy's kinds\<close>





section \<open>Authenticated routes\<close>

lemma authenticated_missing:
  assumes "auth_header req = None"
  shows "authenticated st route req =
     Inl \<lparr>exc_type = TokenNotFound,
          exc_str = ''Expected '' @ [CHR 0x22] @ ''Authorization: Bearer <token>''
                    @ [CHR 0x22] @ '' in header''\<rparr>"
  using assms by (simp add: authenticated_def)

lemma endpoint_raise:
  assumes "route req = Inl error" and "isinstance error Exception"
    and "map_of spec_taxonomy (exc_type error) = Some code"
    and "content_type = ''application/json'' \<or> content_type = ''application/octet-stream''"
  shows "snd (endpoint content_type route req) =
     Inr (Some \<lparr>body = Json (JObj [(''Status'', JStr ''Error''),
                                   (''Message'', JStr (exc_str error))]),
                status_code = code, mimetype = ''application/json'', headers = []\<rparr>)"
  using format_stream_raise [of route req error, OF assms(1,2)]
    format_json_raise [of route req error, OF assms(1,2)] assms(3,4)
  by (auto simp: endpoint_def)

lemma authenticated_revoked:
  assumes "auth_header req = Some (Bearer token)" and "verify st token = Some claim"
    and "now st \<le> exp claim" and "find_by_id st (sub claim) = Inr c" and "revoked c"
  shows "authenticated st route req =
     Inl \<lparr>exc_type = PermissionDenied, exc_str = ''Access has been revoked''\<rparr>"
  using assms by (simp add: authenticated_def decrypt_def)

lemma authenticate_revoked:
  assumes "auth_header req = Some (Basic key secret)" and "find_by_key st key = Some c"
    and "secret_matches st secret c" and "revoked c"
  shows "authenticate st route req =
     Inl \<lparr>exc_type = PermissionDenied, exc_str = ''Access has been revoked''\<rparr>"
  using assms by (simp add: authenticate_def)

lemma authenticated_invalid:
  assumes "auth_header req = Some (Bearer token)" and "verify st token = None"
  shows "authenticated st route req =
     Inl \<lparr>exc_type = TokenInvalid,
          exc_str = ''Token invalid: '' @ [CHR 0x27] @ take 3 token @ ''...''
                    @ drop (length token - 3) token @ [CHR 0x27]\<rparr>"
  using assms by (simp add: authenticated_def decrypt_def preview_def)

text \<open>
  C3. A request without an \<^verbatim>\<open>Authorization\<close> header to a route under
  \<^verbatim>\<open>authenticated\<close> gets the status 403 and exactly the JSON object with
  \<^verbatim>\<open>Status\<close> \<^verbatim>\<open>Error\<close> and the \<^verbatim>\<open>Message\<close>
  \<^verbatim>\<open>Expected "Authorization: Bearer <token>" in header\<close>.
\<close>

theorem token_missing:
  assumes "auth_header req = None"
    and "content_type = ''application/json'' \<or> content_type = ''application/octet-stream''"
  shows "snd (endpoint content_type (authenticated st route) req) =
     Inr (Some
       \<lparr>body = Json (JObj
          [(''Status'', JStr ''Error''),
           (''Message'',
            JStr (''Expected '' @ [CHR 0x22] @ ''Authorization: Bearer <token>''
                  @ [CHR 0x22] @ '' in header''))]),
        status_code = 403, mimetype = ''application/json'', headers = []\<rparr>)"
proof -
  let ?e = "\<lparr>exc_type = TokenNotFound,
             exc_str = ''Expected '' @ [CHR 0x22] @ ''Authorization: Bearer <token>''
                       @ [CHR 0x22] @ '' in header''\<rparr>"
  have i: "isinstance ?e Exception"
    by (simp add: isinstance_def issubclass_def)
  have t: "map_of spec_taxonomy (exc_type ?e) = Some 403"
    by (simp add: spec_taxonomy_def)
  from endpoint_raise [of "authenticated st route" req ?e 403 content_type,
      OF authenticated_missing [OF assms(1)] i t assms(2)]
  show ?thesis by simp
qed

theorem token_missing_witness:
  "auth_header sample_request = None
   \<and> snd (endpoint ''application/json'' (authenticated sample_store sample_route)
            sample_request) =
     Inr (Some
       \<lparr>body = Json (JObj
          [(''Status'', JStr ''Error''),
           (''Message'',
            JStr (''Expected '' @ [CHR 0x22] @ ''Authorization: Bearer <token>''
                  @ [CHR 0x22] @ '' in header''))]),
        status_code = 403, mimetype = ''application/json'', headers = []\<rparr>)"
proof -
  have a: "auth_header sample_request = None"
    by (simp add: sample_request_def)
  have b: "''application/json'' = ''application/json''
           \<or> ''application/json'' = ''application/octet-stream''"
    by simp
  from token_missing [OF a b, of sample_store sample_route] a show ?thesis by simp
qed

text \<open>
  C4. For a client whose access is revoked, a request with a token that verifies, is not
  expired and resolves to that client, and a login with the key and the matching secret of
  that client, both get the status 401 with \<^verbatim>\<open>Status\<close> \<^verbatim>\<open>Error\<close> and the
  \<^verbatim>\<open>Message\<close> \<^verbatim>\<open>Access has been revoked\<close>.
\<close>

theorem access_revoked:
  assumes "revoked c"
    and "content_type = ''application/json'' \<or> content_type = ''application/octet-stream''"
  shows "(auth_header req = Some (Bearer token) \<and> verify st token = Some claim
            \<and> now st \<le> exp claim \<and> find_by_id st (sub claim) = Inr c \<longrightarrow>
          snd (endpoint content_type (authenticated st route) req) =
            Inr (Some \<lparr>body = Json (JObj [(''Status'', JStr ''Error''),
                                          (''Message'', JStr ''Access has been revoked'')]),
                       status_code = 401,
                       mimetype = ''application/json'', headers = []\<rparr>))
       \<and> (auth_header req = Some (Basic key secret) \<and> find_by_key st key = Some c
            \<and> secret_matches st secret c \<longrightarrow>
          snd (endpoint content_type (authenticate st route) req) =
            Inr (Some \<lparr>body = Json (JObj [(''Status'', JStr ''Error''),
                                          (''Message'', JStr ''Access has been revoked'')]),
                       status_code = 401,
                       mimetype = ''application/json'', headers = []\<rparr>))"
proof -
  let ?e = "\<lparr>exc_type = PermissionDenied, exc_str = ''Access has been revoked''\<rparr>"
  have i: "isinstance ?e Exception"
    by (simp add: isinstance_def issubclass_def)
  have t: "map_of spec_taxonomy (exc_type ?e) = Some 401"
    by (simp add: spec_taxonomy_def)
  show ?thesis
  proof (intro conjI impI)
    assume "auth_header req = Some (Bearer token) \<and> verify st token = Some claim
            \<and> now st \<le> exp claim \<and> find_by_id st (sub claim) = Inr c"
    then have "authenticated st route req = Inl ?e"
      using assms(1) by (simp add: authenticated_revoked)
    from endpoint_raise [of "authenticated st route" req ?e 401 content_type,
        OF this i t assms(2)]
    show "snd (endpoint content_type (authenticated st route) req) =
            Inr (Some \<lparr>body = Json (JObj [(''Status'', JStr ''Error''),
                                          (''Message'', JStr ''Access has been revoked'')]),
                       status_code = 401,
                       mimetype = ''application/json'', headers = []\<rparr>)"
      by simp
  next
    assume "auth_header req = Some (Basic key secret) \<and> find_by_key st key = Some c
            \<and> secret_matches st secret c"
    then have "authenticate st route req = Inl ?e"
      using assms(1) by (simp add: authenticate_revoked)
    from endpoint_raise [of "authenticate st route" req ?e 401 content_type,
        OF this i t assms(2)]
    show "snd (endpoint content_type (authenticate st route) req) =
            Inr (Some \<lparr>body = Json (JObj [(''Status'', JStr ''Error''),
                                          (''Message'', JStr ''Access has been revoked'')]),
                       status_code = 401,
                       mimetype = ''application/json'', headers = []\<rparr>)"
      by simp
  qed
qed

theorem access_revoked_witness:
  "revoked sample_client
   \<and> verify sample_store ''good-token'' = Some \<lparr>sub = 7, iat = 10, exp = 100\<rparr>
   \<and> now sample_store \<le> exp \<lparr>sub = 7, iat = 10, exp = 100\<rparr>
   \<and> find_by_id sample_store (sub \<lparr>sub = 7, iat = 10, exp = 100\<rparr>) = Inr sample_client
   \<and> snd (endpoint ''application/json'' (authenticated sample_store sample_route)
            (sample_request\<lparr>auth_header := Some (Bearer ''good-token'')\<rparr>)) =
       Inr (Some \<lparr>body = Json (JObj [(''Status'', JStr ''Error''),
                                     (''Message'', JStr ''Access has been revoked'')]),
                  status_code = 401, mimetype = ''application/json'', headers = []\<rparr>)
   \<and> find_by_key sample_store ''key-7'' = Some sample_client
   \<and> secret_matches sample_store ''secret-7'' sample_client
   \<and> snd (endpoint ''application/json'' (authenticate sample_store sample_route)
            (sample_request\<lparr>auth_header := Some (Basic ''key-7'' ''secret-7'')\<rparr>)) =
       Inr (Some \<lparr>body = Json (JObj [(''Status'', JStr ''Error''),
                                     (''Message'', JStr ''Access has been revoked'')]),
                  status_code = 401, mimetype = ''application/json'', headers = []\<rparr>)"
proof -
  have a: "revoked sample_client"
    by (simp add: sample_client_def)
  have b: "''application/json'' = ''application/json''
           \<or> ''application/json'' = ''application/octet-stream''"
    by simp
  have v: "verify sample_store ''good-token'' = Some \<lparr>sub = 7, iat = 10, exp = 100\<rparr>"
    by (simp add: sample_store_def)
  have n: "now sample_store \<le> exp \<lparr>sub = 7, iat = 10, exp = 100\<rparr>"
    by (simp add: sample_store_def)
  have f: "find_by_id sample_store (sub \<lparr>sub = 7, iat = 10, exp = 100\<rparr>) = Inr sample_client"
    by (simp add: sample_store_def)
  have k: "find_by_key sample_store ''key-7'' = Some sample_client"
    by (simp add: sample_store_def)
  have s: "secret_matches sample_store ''secret-7'' sample_client"
    by (simp add: sample_store_def)
  from access_revoked [OF a b,
      of "sample_request\<lparr>auth_header := Some (Bearer ''good-token'')\<rparr>" "''good-token''"
        sample_store "\<lparr>sub = 7, iat = 10, exp = 100\<rparr>" sample_route]
    access_revoked [OF a b,
      of "sample_request\<lparr>auth_header := Some (Basic ''key-7'' ''secret-7'')\<rparr>" _
        sample_store _ sample_route "''key-7''" "''secret-7''"]
    a v n f k s
  show ?thesis by simp
qed

text \<open>
  C5. For a bearer token that fails verification (a bad signature or a malformed
  structure), the response has the status 403, \<^verbatim>\<open>Status\<close> \<^verbatim>\<open>Error\<close>, and a
  \<^verbatim>\<open>Message\<close> that shows of the token only its first 3 and its last 3
  characters, joined by three dots: \<^verbatim>\<open>bad...ken\<close> for \<^verbatim>\<open>bad-token\<close>.
\<close>

theorem token_invalid:
  assumes "auth_header req = Some (Bearer token)" and "verify st token = None"
    and "content_type = ''application/json'' \<or> content_type = ''application/octet-stream''"
  shows "snd (endpoint content_type (authenticated st route) req) =
     Inr (Some
       \<lparr>body = Json (JObj
          [(''Status'', JStr ''Error''),
           (''Message'',
            JStr (''Token invalid: '' @ [CHR 0x27] @ take 3 token @ ''...''
                  @ drop (length token - 3) token @ [CHR 0x27]))]),
        status_code = 403, mimetype = ''application/json'', headers = []\<rparr>)"
proof -
  let ?e = "\<lparr>exc_type = TokenInvalid,
             exc_str = ''Token invalid: '' @ [CHR 0x27] @ take 3 token @ ''...''
                       @ drop (length token - 3) token @ [CHR 0x27]\<rparr>"
  have i: "isinstance ?e Exception"
    by (simp add: isinstance_def issubclass_def)
  have t: "map_of spec_taxonomy (exc_type ?e) = Some 403"
    by (simp add: spec_taxonomy_def)
  from endpoint_raise [of "authenticated st route" req ?e 403 content_type,
      OF authenticated_invalid [OF assms(1,2)] i t assms(3)]
  show ?thesis by simp
qed

theorem token_invalid_witness:
  "auth_header (sample_request\<lparr>auth_header := Some (Bearer ''bad-token'')\<rparr>) =
     Some (Bearer ''bad-token'')
   \<and> verify sample_store ''bad-token'' = None
   \<and> snd (endpoint ''application/json'' (authenticated sample_store sample_route)
            (sample_request\<lparr>auth_header := Some (Bearer ''bad-token'')\<rparr>)) =
     Inr (Some
       \<lparr>body = Json (JObj
          [(''Status'', JStr ''Error''),
           (''Message'', JStr (''Token invalid: '' @ [CHR 0x27] @ ''bad...ken'' @ [CHR 0x27]))]),
        status_code = 403, mimetype = ''application/json'', headers = []\<rparr>)"
proof -
  have a: "auth_header (sample_request\<lparr>auth_header := Some (Bearer ''bad-token'')\<rparr>) =
      Some (Bearer ''bad-token'')"
    by simp
  have v: "verify sample_store ''bad-token'' = None"
    by (simp add: sample_store_def)
  have b: "''application/json'' = ''application/json''
           \<or> ''application/json'' = ''application/octet-stream''"
    by simp
  from token_invalid [OF a v b, of sample_route] a v show ?thesis by simp
qed

end
